theory Spec2Isabelle
  imports Main "HOL-Library.Word" "HOL-Library.AList" "HOL-Library.Sublist"
begin

section \<open>The SauceNAO endpoint of HibiAPI (src/api/sauce/api.py)\<close>

text \<open>
  The module is an adapter: \<open>fetch\<close> streams a remote image into a \<open>BytesIO\<close> under a
  size cap, \<open>request\<close> posts a buffer to the upstream search API, \<open>search\<close> composes the
  two. The Python is embedded function by function. Exceptions are values of the sum
  type \<open>exn + 'a\<close>; the HTTP client, which the module only calls, is a parameter that
  says what each call answers; the network calls and the reads of the response stream
  are recorded in a trace, and the \<open>params\<close> dictionary, which \<open>request\<close> mutates in place,
  lives in a store of dictionaries.
\<close>

subsection \<open>Python values, dictionaries, JSON\<close>

type_synonym bytes = "8 word list"

text \<open>
  \<open>class DeduplicateType(IntEnum)\<close>: \<open>DISABLED = 0\<close>, \<open>IDENTIFIER = 1\<close>, \<open>ALL = 2\<close>
  (written \<open>ALL'\<close>: \<open>ALL\<close> is a quantifier of the logic).
\<close>

datatype DeduplicateType = DISABLED | IDENTIFIER | ALL'

fun int_value :: "DeduplicateType \<Rightarrow> int" where
  "int_value DISABLED = 0"
| "int_value IDENTIFIER = 1"
| "int_value ALL' = 2"

text \<open>
  The Python values that occur in the module: \<open>None\<close>, integers, strings, and the members
  of the \<open>IntEnum\<close>, which are integers with the value \<open>int_value\<close>.
\<close>

datatype pyval = PNone | PInt int | PStr string | PIntEnum DeduplicateType

text \<open>
  A \<open>dict\<close> with string keys, in insertion order. \<open>d.update(other)\<close> stores the entries of
  \<open>other\<close> one after the other: a key that is present keeps its place and takes the new
  value, a new key goes to the end.
\<close>

type_synonym pydict = "(string \<times> pyval) list"

definition dict_update :: "pydict \<Rightarrow> pydict \<Rightarrow> pydict" where
  "dict_update d other = fold (\<lambda>(k, v). AList.update k v) other d"

text \<open>A JSON value, as \<open>response.json()\<close> returns it; the module does not look inside.\<close>

datatype json =
    JNull | JBool bool | JNum int | JStr string
  | JArr "json list" | JObj "(string \<times> json) list"

subsection \<open>The HTTP client (httpx) as the module sees it\<close>

text \<open>
  The response of \<open>client.post\<close>: its status code, its body as text (\<open>response.text\<close>), the
  body parsed as JSON (\<open>None\<close> when the body is not JSON and \<open>response.json()\<close> raises), and
  the message httpx gives the \<open>HTTPStatusError\<close> it raises for this response.
\<close>

record response =
  status_code :: nat
  response_text :: string
  json :: "json option"
  status_error_text :: string

text \<open>
  The exceptions. \<open>HTTPError m\<close> is an \<open>httpx.HTTPError\<close> below the status level (connection
  failure, timeout, protocol error) with \<open>str(e) = m\<close>; \<open>HTTPStatusError m r\<close> is its subclass
  raised by \<open>raise_for_status\<close>, carrying the response. The three exceptions of the service
  carry the \<open>detail=\<close> keyword they were raised with (\<open>None\<close> when the class is raised bare).
\<close>

datatype exn =
    UnavailableSourceException "string option"
  | ImageSourceOversizedException "string option"
  | UpstreamAPIException "string option"
  | HTTPError string
  | HTTPStatusError string response
  | TypeError
  | AssertionError
  | JSONDecodeError
  | UrlHostError

text \<open>
  Python's \<open>v > m\<close> for an integer \<open>m\<close>: integers (and \<open>IntEnum\<close> members) compare by value;
  a \<open>str\<close> or \<open>None\<close> on the left raises \<open>TypeError\<close>
  (\<open>'>' not supported between instances of 'str' and 'int'\<close>).
\<close>

fun py_gt :: "pyval \<Rightarrow> int \<Rightarrow> exn + bool" where
  "py_gt (PInt v) m = Inr (v > m)"
| "py_gt (PIntEnum e) m = Inr (int_value e > m)"
| "py_gt (PStr v) m = Inl TypeError"
| "py_gt PNone m = Inl TypeError"

text \<open>
  \<open>response.raise_for_status()\<close> raises \<open>HTTPStatusError\<close> when the status of the response
  is one that httpx takes for a failure, and returns otherwise. Which statuses those are
  is httpx's to say and differs between its versions (the client and server errors, 400
  to 599, or every status outside 200 to 299), so the set is a parameter: \<open>raises code\<close>
  says that \<open>raise_for_status\<close> raises on the status \<open>code\<close>.
\<close>

definition raise_for_status :: "(nat \<Rightarrow> bool) \<Rightarrow> response \<Rightarrow> exn + unit" where
  "raise_for_status raises r =
     (if raises (status_code r) then Inl (HTTPStatusError (status_error_text r) r)
      else Inr ())"

definition response_json :: "response \<Rightarrow> exn + json" where
  "response_json r = (case json r of None \<Rightarrow> Inl JSONDecodeError | Some j \<Rightarrow> Inr j)"

text \<open>
  The response of \<open>client.stream("GET", ...)\<close>: its headers (httpx gives header values as
  \<open>str\<close>, looked up by lower-case name) and what iterating \<open>response.stream\<close> yields, one event
  per iteration: a chunk of bytes, or an \<open>HTTPError\<close> with its text (read timeout, broken
  connection, malformed encoding), after which nothing more is read. A body ends or its
  read fails (a stalled read times out), so the events form a finite list and the loop
  over them is structural recursion.
\<close>

datatype stream_event = Chunk bytes | ReadFail string

record stream_response =
  headers :: "string \<rightharpoonup> string"
  stream :: "stream_event list"

text \<open>\<open>response.headers.get(key, default)\<close>.\<close>

definition headers_get :: "(string \<rightharpoonup> string) \<Rightarrow> string \<Rightarrow> pyval \<Rightarrow> pyval" where
  "headers_get h key dflt = (case h key of Some v \<Rightarrow> PStr v | None \<Rightarrow> dflt)"

datatype stream_outcome = Opened stream_response | ConnectFail string

datatype post_outcome = Responded response | PostFail string

subsection \<open>Host URLs and the in-memory file\<close>

record parsed_url =
  url_scheme :: string
  url_host :: string
  url_path :: string

datatype HostUrl = HostUrl parsed_url

text \<open>
  \<open>UploadFileIO(BytesIO)\<close>: the bytes held (\<open>getvalue()\<close>) and the position (\<open>tell()\<close>).
  \<open>write(b)\<close> stores \<open>b\<close> at the position, over what is there, padding with zero bytes when
  the position is beyond the end; it moves the position and returns \<open>len(b)\<close>. Writing no
  bytes changes nothing.
\<close>

record bytesio =
  getvalue :: bytes
  tell :: nat

definition UploadFileIO :: bytesio where
  "UploadFileIO = \<lparr>getvalue = [], tell = 0\<rparr>"

definition bytesio_write :: "bytesio \<Rightarrow> bytes \<Rightarrow> bytesio \<times> int" where
  "bytesio_write f b =
     (if b = [] then (f, 0)
      else
        (let p = tell f; v = getvalue f; padded = v @ replicate (p - length v) 0
         in (\<lparr>getvalue = take p padded @ b @ drop (p + length b) v, tell = p + length b\<rparr>,
             int (length b))))"

definition bytesio_seek :: "bytesio \<Rightarrow> nat \<Rightarrow> bytesio" where
  "bytesio_seek f n = f\<lparr>tell := n\<rparr>"

subsection \<open>Constants, the endpoint object, the state\<close>

text \<open>
  \<open>SauceConstants\<close> (\<open>.constants\<close>, not among the sources) is a parameter: the module reads
  these five values of it.
\<close>

record SauceConstants =
  API_KEY :: string
  IMAGE_HEADERS :: "(string \<times> string) list"
  IMAGE_ALLOWED_HOST :: "string list"
  IMAGE_MAXIMUM_SIZE :: int
  IMAGE_TIMEOUT :: int

text \<open>
  \<open>self\<close>: what \<open>self.client.stream("GET", url, headers, timeout)\<close> and
  \<open>self.client.post(url, files={"file": file})\<close> answer, the statuses on which the
  responses of the client raise in \<open>raise_for_status\<close>, and \<open>self._join(base, endpoint, params)\<close>
  of \<open>BaseEndpoint\<close> (\<open>utils.utils\<close>, not among the sources), which builds the URL of the call.
\<close>

record BaseEndpoint =
  client_stream :: "HostUrl \<Rightarrow> (string \<times> string) list \<Rightarrow> int \<Rightarrow> stream_outcome"
  client_post :: "string \<Rightarrow> bytesio \<Rightarrow> post_outcome"
  status_raises :: "nat \<Rightarrow> bool"
  join :: "string \<Rightarrow> string \<Rightarrow> pydict \<Rightarrow> string"

definition base :: string where
  "base = ''https://saucenao.com''"

text \<open>
  What the module does to the world: the network calls it makes and the chunks it takes
  from a response stream, oldest first.
\<close>

datatype io =
    is_Get: Get HostUrl "(string \<times> string) list" int
  | is_Read: Read bytes
  | is_Post: Post string bytesio

text \<open>
  The state: the store of dictionary objects (a reference is a \<open>nat\<close>), the next free
  reference, and the trace.
\<close>

record state =
  dicts :: "nat \<Rightarrow> pydict"
  next_ref :: nat
  trace :: "io list"

definition emit :: "io \<Rightarrow> state \<Rightarrow> state" where
  "emit e s = s\<lparr>trace := trace s @ [e]\<rparr>"

text \<open>The bytes of the response body that a trace has taken from the stream.\<close>

fun bytes_read :: "io list \<Rightarrow> bytes" where
  "bytes_read [] = []"
| "bytes_read (Read b # t) = b @ bytes_read t"
| "bytes_read (e # t) = bytes_read t"

subsection \<open>\<open>SauceEndpoint.fetch\<close>\<close>

text \<open>
  The loop \<open>async for stream in response.stream\<close>:
  \<^verbatim>\<open>
      size += file.write(stream)
      if size > SauceConstants.IMAGE_MAXIMUM_SIZE:
          raise ImageSourceOversizedException
  \<close>
\<close>

fun fetch_loop ::
  "int \<Rightarrow> stream_event list \<Rightarrow> bytesio \<Rightarrow> int \<Rightarrow> state \<Rightarrow> (exn + bytesio \<times> int) \<times> state" where
  "fetch_loop mx [] file sz s = (Inr (file, sz), s)"
| "fetch_loop mx (ReadFail m # rest) file sz s = (Inl (HTTPError m), s)"
| "fetch_loop mx (Chunk b # rest) file sz s =
     (let (file', n) = bytesio_write file b; sz' = sz + n; s' = emit (Read b) s
      in if sz' > mx then (Inl (ImageSourceOversizedException None), s')
         else fetch_loop mx rest file' sz' s')"

text \<open>The body of the \<open>try\<close>: open the stream, test the header, run the loop, \<open>file.seek(0)\<close>.\<close>

definition fetch_try ::
  "SauceConstants \<Rightarrow> BaseEndpoint \<Rightarrow> HostUrl \<Rightarrow> state \<Rightarrow> (exn + bytesio) \<times> state" where
  "fetch_try C self host s =
     (let file = UploadFileIO; sz = 0;
          s1 = emit (Get host (IMAGE_HEADERS C) (IMAGE_TIMEOUT C)) s
      in case client_stream self host (IMAGE_HEADERS C) (IMAGE_TIMEOUT C) of
           ConnectFail m \<Rightarrow> (Inl (HTTPError m), s1)
         | Opened response \<Rightarrow>
             (case py_gt (headers_get (headers response) ''content-length'' (PInt (- 1)))
                         (IMAGE_MAXIMUM_SIZE C) of
                Inl e \<Rightarrow> (Inl e, s1)
              | Inr True \<Rightarrow> (Inl (ImageSourceOversizedException None), s1)
              | Inr False \<Rightarrow>
                  (case fetch_loop (IMAGE_MAXIMUM_SIZE C) (stream response) file sz s1 of
                     (Inl e, s2) \<Rightarrow> (Inl e, s2)
                   | (Inr (file', sz'), s2) \<Rightarrow> (Inr (bytesio_seek file' 0), s2))))"

text \<open>
  \<open>except HTTPError as e: raise UnavailableSourceException(detail=str(e))\<close>. The clause
  catches \<open>HTTPError\<close> and its subclass; every other exception passes.
\<close>

fun fetch_except :: "exn \<Rightarrow> exn" where
  "fetch_except (HTTPError m) = UnavailableSourceException (Some m)"
| "fetch_except (HTTPStatusError m r) = UnavailableSourceException (Some m)"
| "fetch_except e = e"

definition fetch ::
  "SauceConstants \<Rightarrow> BaseEndpoint \<Rightarrow> HostUrl \<Rightarrow> state \<Rightarrow> (exn + bytesio) \<times> state" where
  "fetch C self host s =
     (case fetch_try C self host s of
        (Inl e, s') \<Rightarrow> (Inl (fetch_except e), s')
      | (Inr file, s') \<Rightarrow> (Inr file, s'))"

subsection \<open>\<open>SauceEndpoint.request\<close>\<close>

text \<open>
  The body of the \<open>try\<close>: \<open>client.post(url=self._join(self.base, "search.php", params),
  files={"file": file})\<close>, then \<open>response.raise_for_status()\<close>. \<open>d\<close> is the value of the
  \<open>params\<close> dictionary at the call.
\<close>

definition request_try ::
  "BaseEndpoint \<Rightarrow> bytesio \<Rightarrow> pydict \<Rightarrow> state \<Rightarrow> (exn + response) \<times> state" where
  "request_try self file d s =
     (let url = join self base ''search.php'' d; s1 = emit (Post url file) s
      in case client_post self url file of
           PostFail m \<Rightarrow> (Inl (HTTPError m), s1)
         | Responded response \<Rightarrow>
             (case raise_for_status (status_raises self) response of
                Inl e \<Rightarrow> (Inl e, s1)
              | Inr u \<Rightarrow> (Inr response, s1)))"

text \<open>
  \<open>except HTTPStatusError as e: raise UpstreamAPIException(detail=e.response.text)\<close>, then
  \<open>except HTTPError: raise UpstreamAPIException\<close>.
\<close>

fun request_except :: "exn \<Rightarrow> exn" where
  "request_except (HTTPStatusError m r) = UpstreamAPIException (Some (response_text r))"
| "request_except (HTTPError m) = UpstreamAPIException None"
| "request_except e = e"

text \<open>
  \<open>params\<close> is a reference into the store: \<open>params.update({...})\<close> changes the object the
  caller holds, before the \<open>try\<close>.
\<close>

definition request ::
  "SauceConstants \<Rightarrow> BaseEndpoint \<Rightarrow> bytesio \<Rightarrow> nat \<Rightarrow> state \<Rightarrow> (exn + json) \<times> state" where
  "request C self file params s =
     (let s0 = s\<lparr>dicts := (dicts s)(params :=
                 dict_update (dicts s params)
                   [(''api_key'', PStr (API_KEY C)), (''output_type'', PInt 2)])\<rparr>
      in case request_try self file (dicts s0 params) s0 of
           (Inl e, s1) \<Rightarrow> (Inl (request_except e), s1)
         | (Inr response, s1) \<Rightarrow> (response_json response, s1))"

subsection \<open>\<open>SauceEndpoint.search\<close>\<close>

text \<open>The keyword arguments of \<open>search\<close> and their defaults.\<close>

record search_args =
  arg_url :: "HostUrl option"
  arg_file :: "bytesio option"
  arg_size :: int
  arg_deduplicate :: DeduplicateType
  arg_database :: "int option"
  arg_enabled_mask :: "int option"
  arg_disabled_mask :: "int option"

definition search_defaults :: search_args where
  "search_defaults =
     \<lparr>arg_url = None, arg_file = None, arg_size = 30, arg_deduplicate = ALL',
      arg_database = None, arg_enabled_mask = None, arg_disabled_mask = None\<rparr>"

text \<open>An \<open>Optional[int]\<close> as a Python value.\<close>

definition optional_int :: "int option \<Rightarrow> pyval" where
  "optional_int v = (case v of None \<Rightarrow> PNone | Some n \<Rightarrow> PInt n)"

text \<open>A dictionary display \<open>{...}\<close> makes a new object in the store.\<close>

definition new_dict :: "pydict \<Rightarrow> state \<Rightarrow> nat \<times> state" where
  "new_dict d s =
     (next_ref s, s\<lparr>dicts := (dicts s)(next_ref s := d), next_ref := Suc (next_ref s)\<rparr>)"

definition search ::
  "SauceConstants \<Rightarrow> BaseEndpoint \<Rightarrow> search_args \<Rightarrow> state \<Rightarrow> (exn + json) \<times> state" where
  "search C self a s =
     (case (case arg_url a of
              Some url \<Rightarrow>
                (case fetch C self url s of
                   (Inl e, s1) \<Rightarrow> (Inl e, s1)
                 | (Inr file, s1) \<Rightarrow> (Inr (Some file), s1))
            | None \<Rightarrow> (Inr (arg_file a), s)) of
        (Inl e, s1) \<Rightarrow> (Inl e, s1)
      | (Inr None, s1) \<Rightarrow> (Inl AssertionError, s1)
      | (Inr (Some file), s1) \<Rightarrow>
          (let (params, s2) =
                 new_dict
                   [(''dbmask'', optional_int (arg_enabled_mask a)),
                    (''dbmaski'', optional_int (arg_disabled_mask a)),
                    (''db'', optional_int (arg_database a)),
                    (''numres'', PInt (arg_size a)),
                    (''dedupe'', PIntEnum (arg_deduplicate a))] s1
           in request C self file params s2))"

subsection \<open>\<open>HostUrl\<close>\<close>

text \<open>
  Modelled from the spec: \<open>BaseHostUrl\<close> (\<open>utils.utils\<close>), whose validation \<open>HostUrl\<close>
  inherits with \<open>allowed_hosts = SauceConstants.IMAGE_ALLOWED_HOST\<close>, is not among the
  sources. The spec: "a validated URL restricted to a configured allow-list of hosts.
  Invariant: construction fails if the host is not in the allow-list."
\<close>

definition HostUrl_validate :: "SauceConstants \<Rightarrow> parsed_url \<Rightarrow> exn + HostUrl" where
  "HostUrl_validate C u =
     (if url_host u \<in> set (IMAGE_ALLOWED_HOST C) then Inr (HostUrl u) else Inl UrlHostError)"

text \<open>
  Modelled from the spec: the callers of \<open>fetch\<close> and \<open>search\<close> (the routing layer) are not
  among the sources. Both functions take a \<open>HostUrl\<close>, so a caller that holds a URL
  constructs the \<open>HostUrl\<close> first and calls with the result.
\<close>

definition fetch_url ::
  "SauceConstants \<Rightarrow> BaseEndpoint \<Rightarrow> parsed_url \<Rightarrow> state \<Rightarrow> (exn + bytesio) \<times> state" where
  "fetch_url C self u s =
     (case HostUrl_validate C u of
        Inl e \<Rightarrow> (Inl e, s)
      | Inr host \<Rightarrow> fetch C self host s)"

definition search_url ::
  "SauceConstants \<Rightarrow> BaseEndpoint \<Rightarrow> parsed_url \<Rightarrow> search_args \<Rightarrow> state
     \<Rightarrow> (exn + json) \<times> state" where
  "search_url C self u a s =
     (case HostUrl_validate C u of
        Inl e \<Rightarrow> (Inl e, s)
      | Inr host \<Rightarrow> search C self (a\<lparr>arg_url := Some host\<rparr>) s)"

subsection \<open>A concrete configuration, for evaluating the functions\<close>

definition ex_constants :: SauceConstants where
  "ex_constants =
     \<lparr>API_KEY = ''secret'', IMAGE_HEADERS = [(''user-agent'', ''hibiapi'')],
      IMAGE_ALLOWED_HOST = [''saucenao.com''], IMAGE_MAXIMUM_SIZE = 4, IMAGE_TIMEOUT = 10\<rparr>"

definition ex_url :: parsed_url where
  "ex_url = \<lparr>url_scheme = ''https'', url_host = ''saucenao.com'', url_path = ''/img/sample.jpg''\<rparr>"

definition ex_self :: "stream_outcome \<Rightarrow> post_outcome \<Rightarrow> BaseEndpoint" where
  "ex_self g p =
     \<lparr>client_stream = (\<lambda>host hs t. g), client_post = (\<lambda>url file. p),
      status_raises = (\<lambda>code. code < 200 \<or> 299 < code),
      join = (\<lambda>b e d. b @ ''/'' @ e)\<rparr>"

definition ex_state :: state where
  "ex_state = \<lparr>dicts = (\<lambda>r. []), next_ref = 0, trace = []\<rparr>"

definition ex_response :: "nat \<Rightarrow> response" where
  "ex_response code =
     \<lparr>status_code = code, response_text = ''body'', json = Some (JObj [(''results'', JArr [])]),
      status_error_text = ''status''\<rparr>"

section \<open>Properties\<close>

subsection \<open>The concrete configuration, unfolded\<close>

lemma ex_fetch_simps:
  "client_stream (ex_self g p) host hs t = g"
  "IMAGE_MAXIMUM_SIZE ex_constants = 4"
  "IMAGE_HEADERS ex_constants = [(''user-agent'', ''hibiapi'')]"
  "IMAGE_TIMEOUT ex_constants = 10"
  by (simp_all add: ex_self_def ex_constants_def)

lemma ex_post_simps:
  "client_post (ex_self g p) url fl = p"
  "status_raises (ex_self g p) code = (code < 200 \<or> 299 < code)"
  "API_KEY ex_constants = ''secret''"
  "status_code (ex_response code) = code"
  "json (ex_response code) = Some (JObj [(''results'', JArr [])])"
  by (simp_all add: ex_self_def ex_constants_def ex_response_def)

subsection \<open>The streaming loop of \<open>fetch\<close>\<close>

text \<open>
  \<open>fetch\<close> writes to a fresh file, so every write is at the end of the file: it appends
  the chunk.
\<close>

lemma bytesio_write_at_end:
  "tell f = length (getvalue f) \<Longrightarrow>
   bytesio_write f b =
     (\<lparr>getvalue = getvalue f @ b, tell = length (getvalue f) + length b\<rparr>, int (length b))"
  by (cases f) (simp add: bytesio_write_def Let_def)

lemma fetch_loop_within:
  "tell fl = length (getvalue fl) \<Longrightarrow> sz + int (length (concat cs)) \<le> mx \<Longrightarrow>
   fetch_loop mx (map Chunk cs @ rest) fl sz s =
     fetch_loop mx rest
       \<lparr>getvalue = getvalue fl @ concat cs,
          tell = length (getvalue fl) + length (concat cs)\<rparr>
       (sz + int (length (concat cs))) (s\<lparr>trace := trace s @ map Read cs\<rparr>)"
proof (induction cs arbitrary: fl sz s)
  case Nil
  then show ?case by (cases fl) simp
next
  case (Cons b cs)
  let ?fl = "\<lparr>getvalue = getvalue fl @ b, tell = length (getvalue fl) + length b\<rparr>"
  have w: "bytesio_write fl b = (?fl, int (length b))"
    using Cons.prems(1) by (rule bytesio_write_at_end)
  have small: "\<not> mx < sz + int (length b)"
    using Cons.prems(2) by simp
  have step: "fetch_loop mx (map Chunk (b # cs) @ rest) fl sz s =
      fetch_loop mx (map Chunk cs @ rest) ?fl (sz + int (length b)) (emit (Read b) s)"
    using w small by simp
  have "fetch_loop mx (map Chunk cs @ rest) ?fl (sz + int (length b)) (emit (Read b) s) =
      fetch_loop mx rest
        \<lparr>getvalue = getvalue ?fl @ concat cs,
           tell = length (getvalue ?fl) + length (concat cs)\<rparr>
        (sz + int (length b) + int (length (concat cs)))
        ((emit (Read b) s)\<lparr>trace := trace (emit (Read b) s) @ map Read cs\<rparr>)"
    using Cons.prems(2) by (intro Cons.IH) simp_all
  with step show ?case by (simp add: emit_def add.assoc)
qed

lemma fetch_loop_crosses:
  "tell fl = length (getvalue fl) \<Longrightarrow> sz \<le> mx \<Longrightarrow> mx < sz + int (length (concat cs)) \<Longrightarrow>
   \<exists>rs. fetch_loop mx (map Chunk cs @ rest) fl sz s =
          (Inl (ImageSourceOversizedException None), s\<lparr>trace := trace s @ map Read rs\<rparr>)
      \<and> prefix rs cs \<and> rs \<noteq> []
      \<and> sz + int (length (concat (butlast rs))) \<le> mx
      \<and> mx < sz + int (length (concat rs))"
proof (induction cs arbitrary: fl sz s)
  case Nil
  then show ?case by simp
next
  case (Cons b cs)
  let ?fl = "\<lparr>getvalue = getvalue fl @ b, tell = length (getvalue fl) + length b\<rparr>"
  have w: "bytesio_write fl b = (?fl, int (length b))"
    using Cons.prems(1) by (rule bytesio_write_at_end)
  show ?case
  proof (cases "mx < sz + int (length b)")
    case True
    then have "fetch_loop mx (map Chunk (b # cs) @ rest) fl sz s =
        (Inl (ImageSourceOversizedException None), s\<lparr>trace := trace s @ map Read [b]\<rparr>)"
      using w by (simp add: emit_def)
    moreover have "prefix [b] (b # cs)" by simp
    ultimately show ?thesis
      using True Cons.prems(2) by (intro exI [of _ "[b]"]) simp
  next
    case False
    then have step: "fetch_loop mx (map Chunk (b # cs) @ rest) fl sz s =
        fetch_loop mx (map Chunk cs @ rest) ?fl (sz + int (length b)) (emit (Read b) s)"
      using w by simp
    have "\<exists>rs. fetch_loop mx (map Chunk cs @ rest) ?fl (sz + int (length b)) (emit (Read b) s) =
          (Inl (ImageSourceOversizedException None),
           (emit (Read b) s)\<lparr>trace := trace (emit (Read b) s) @ map Read rs\<rparr>)
      \<and> prefix rs cs \<and> rs \<noteq> []
      \<and> sz + int (length b) + int (length (concat (butlast rs))) \<le> mx
      \<and> mx < sz + int (length b) + int (length (concat rs))"
      using False Cons.prems(3) by (intro Cons.IH) simp_all
    then obtain rs where rs:
      "fetch_loop mx (map Chunk cs @ rest) ?fl (sz + int (length b)) (emit (Read b) s) =
          (Inl (ImageSourceOversizedException None),
           (emit (Read b) s)\<lparr>trace := trace (emit (Read b) s) @ map Read rs\<rparr>)"
      "prefix rs cs" "rs \<noteq> []"
      "sz + int (length b) + int (length (concat (butlast rs))) \<le> mx"
      "mx < sz + int (length b) + int (length (concat rs))"
      by blast
    show ?thesis
      using step rs by (intro exI [of _ "b # rs"]) (simp add: emit_def add.assoc)
  qed
qed

lemma fetch_loop_returns:
  "fetch_loop mx evs fl sz s = (Inr (fl', sz'), s') \<Longrightarrow>
   tell fl = length (getvalue fl) \<Longrightarrow> sz = int (length (getvalue fl)) \<Longrightarrow> sz \<le> mx \<Longrightarrow>
   tell fl' = length (getvalue fl') \<and> sz' = int (length (getvalue fl')) \<and> sz' \<le> mx"
proof (induction mx evs fl sz s rule: fetch_loop.induct)
  case (1 mx fl sz s)
  then show ?case by auto
next
  case (2 mx m rest fl sz s)
  then show ?case by simp
next
  case (3 mx b rest fl sz s)
  let ?fl = "\<lparr>getvalue = getvalue fl @ b, tell = length (getvalue fl) + length b\<rparr>"
  have w: "bytesio_write fl b = (?fl, int (length b))"
    using "3.prems"(2) by (rule bytesio_write_at_end)
  have small: "\<not> mx < sz + int (length b)"
    using "3.prems"(1) w by (auto split: if_splits)
  have run: "fetch_loop mx rest ?fl (sz + int (length b)) (emit (Read b) s) = (Inr (fl', sz'), s')"
    using "3.prems"(1) w small by simp
  show ?case
    using w small run "3.prems"(3)
    by (intro "3.IH" [of "(?fl, int (length b))" ?fl "int (length b)" "sz + int (length b)" "emit (Read b) s"]) simp_all
qed

lemma concat_butlast_last:
  "rs \<noteq> [] \<Longrightarrow> length (concat rs) = length (concat (butlast rs)) + length (last rs)"
  by (induction rs) auto

subsection \<open>\<open>fetch\<close>: the declared \<open>content-length\<close>\<close>

lemma fetch_try_no_content_length:
  assumes "client_stream self host (IMAGE_HEADERS C) (IMAGE_TIMEOUT C) = Opened r"
    and "headers r ''content-length'' = None"
    and "- 1 \<le> IMAGE_MAXIMUM_SIZE C"
  shows "fetch_try C self host s =
     (case fetch_loop (IMAGE_MAXIMUM_SIZE C) (stream r) UploadFileIO 0
             (emit (Get host (IMAGE_HEADERS C) (IMAGE_TIMEOUT C)) s) of
        (Inl e, s2) \<Rightarrow> (Inl e, s2)
      | (Inr (fl', sz'), s2) \<Rightarrow> (Inr (bytesio_seek fl' 0), s2))"
  using assms by (simp add: fetch_try_def headers_get_def)

text \<open>
  A response that declares a \<open>content-length\<close>, whatever its value: the comparison of the
  \<open>str\<close> with the integer maximum raises \<open>TypeError\<close> before the loop starts.
\<close>

lemma fetch_try_content_length:
  assumes "client_stream self host (IMAGE_HEADERS C) (IMAGE_TIMEOUT C) = Opened r"
    and "headers r ''content-length'' = Some v"
  shows "fetch_try C self host s =
     (Inl TypeError, emit (Get host (IMAGE_HEADERS C) (IMAGE_TIMEOUT C)) s)"
  using assms by (simp add: fetch_try_def headers_get_def)

text \<open>
  C1. The claim: a response whose declared \<open>content-length\<close> exceeds the maximum makes
  \<open>fetch\<close> fail with \<open>ImageSourceOversizedException\<close> before any body byte is read. The
  header value is a \<open>str\<close> and the maximum an integer, so the comparison of line 66 raises
  \<open>TypeError\<close>, which the \<open>except HTTPError\<close> clause does not catch. With a maximum of 4
  bytes and a response that declares \<open>content-length: 5\<close>, \<open>fetch\<close> fails with \<open>TypeError\<close>;
  the trace holds the GET and no read.
\<close>

theorem fetch_content_length_TypeError:
  "fetch ex_constants
     (ex_self (Opened \<lparr>headers = [''content-length'' \<mapsto> ''5''], stream = [Chunk [1, 2, 3, 4, 5]]\<rparr>)
        (PostFail []))
     (HostUrl ex_url) ex_state
   = (Inl TypeError, ex_state\<lparr>trace := [Get (HostUrl ex_url) [(''user-agent'', ''hibiapi'')] 10]\<rparr>)"
  by (simp add: fetch_def fetch_try_def ex_fetch_simps headers_get_def emit_def ex_state_def)

subsection \<open>\<open>fetch\<close>: the size cap on the bytes read\<close>

lemma fetch_try_crosses:
  assumes "client_stream self host (IMAGE_HEADERS C) (IMAGE_TIMEOUT C) = Opened r"
    and "headers r ''content-length'' = None"
    and "stream r = map Chunk cs @ rest"
    and "0 \<le> IMAGE_MAXIMUM_SIZE C"
    and "IMAGE_MAXIMUM_SIZE C < int (length (concat cs))"
  shows "\<exists>rs. fetch_try C self host s =
            (Inl (ImageSourceOversizedException None),
             s\<lparr>trace := trace s @ Get host (IMAGE_HEADERS C) (IMAGE_TIMEOUT C) # map Read rs\<rparr>)
      \<and> prefix rs cs \<and> rs \<noteq> []
      \<and> int (length (concat (butlast rs))) \<le> IMAGE_MAXIMUM_SIZE C
      \<and> IMAGE_MAXIMUM_SIZE C < int (length (concat rs))"
proof -
  let ?s1 = "emit (Get host (IMAGE_HEADERS C) (IMAGE_TIMEOUT C)) s"
  have "\<exists>rs. fetch_loop (IMAGE_MAXIMUM_SIZE C) (map Chunk cs @ rest) UploadFileIO 0 ?s1 =
          (Inl (ImageSourceOversizedException None), ?s1\<lparr>trace := trace ?s1 @ map Read rs\<rparr>)
      \<and> prefix rs cs \<and> rs \<noteq> []
      \<and> 0 + int (length (concat (butlast rs))) \<le> IMAGE_MAXIMUM_SIZE C
      \<and> IMAGE_MAXIMUM_SIZE C < 0 + int (length (concat rs))"
    using assms(4,5) by (intro fetch_loop_crosses) (simp_all add: UploadFileIO_def)
  then obtain rs where rs:
    "fetch_loop (IMAGE_MAXIMUM_SIZE C) (map Chunk cs @ rest) UploadFileIO 0 ?s1 =
          (Inl (ImageSourceOversizedException None), ?s1\<lparr>trace := trace ?s1 @ map Read rs\<rparr>)"
    "prefix rs cs" "rs \<noteq> []"
    "int (length (concat (butlast rs))) \<le> IMAGE_MAXIMUM_SIZE C"
    "IMAGE_MAXIMUM_SIZE C < int (length (concat rs))"
    by auto
  have "fetch_try C self host s =
      (Inl (ImageSourceOversizedException None), ?s1\<lparr>trace := trace ?s1 @ map Read rs\<rparr>)"
    using assms(1,2,3,4) rs(1) by (simp add: fetch_try_no_content_length)
  then show ?thesis
    using rs(2-5) by (intro exI [of _ rs]) (simp add: emit_def)
qed

text \<open>
  C2, as amended. For every response that declares no \<open>content-length\<close> and whose stream
  begins with chunks \<open>cs\<close> holding more bytes than the maximum, \<open>fetch\<close> fails with
  \<open>ImageSourceOversizedException\<close>. It has opened one GET and read the chunks \<open>rs\<close>, a
  non-empty prefix of \<open>cs\<close> that ends with the first chunk at which the running count
  exceeds the maximum: the chunks before it hold at most the maximum, so the bytes read
  are at most the maximum plus the size of that chunk, and no later chunk is read. The
  chunk at which the count crosses can be the last one of the body.
\<close>

theorem fetch_stops_at_crossing_chunk:
  assumes "client_stream self host (IMAGE_HEADERS C) (IMAGE_TIMEOUT C) = Opened r"
    and "headers r ''content-length'' = None"
    and "stream r = map Chunk cs @ rest"
    and "0 \<le> IMAGE_MAXIMUM_SIZE C"
    and "IMAGE_MAXIMUM_SIZE C < int (length (concat cs))"
  shows "\<exists>rs. fetch C self host s =
            (Inl (ImageSourceOversizedException None),
             s\<lparr>trace := trace s @ Get host (IMAGE_HEADERS C) (IMAGE_TIMEOUT C) # map Read rs\<rparr>)
      \<and> prefix rs cs \<and> rs \<noteq> []
      \<and> int (length (concat (butlast rs))) \<le> IMAGE_MAXIMUM_SIZE C
      \<and> IMAGE_MAXIMUM_SIZE C < int (length (concat rs))
      \<and> int (length (concat rs)) \<le> IMAGE_MAXIMUM_SIZE C + int (length (last rs))"
proof -
  obtain rs where rs:
    "fetch_try C self host s =
            (Inl (ImageSourceOversizedException None),
             s\<lparr>trace := trace s @ Get host (IMAGE_HEADERS C) (IMAGE_TIMEOUT C) # map Read rs\<rparr>)"
    "prefix rs cs" "rs \<noteq> []"
    "int (length (concat (butlast rs))) \<le> IMAGE_MAXIMUM_SIZE C"
    "IMAGE_MAXIMUM_SIZE C < int (length (concat rs))"
    using fetch_try_crosses [OF assms] by blast
  have "int (length (concat rs)) \<le> IMAGE_MAXIMUM_SIZE C + int (length (last rs))"
    using rs(3,4) concat_butlast_last [of rs] by simp
  moreover have "fetch C self host s =
            (Inl (ImageSourceOversizedException None),
             s\<lparr>trace := trace s @ Get host (IMAGE_HEADERS C) (IMAGE_TIMEOUT C) # map Read rs\<rparr>)"
    using rs(1) by (simp add: fetch_def)
  ultimately show ?thesis
    using rs(2-5) by blast
qed

text \<open>C2 at a maximum of 4 bytes and a body of 6 bytes in three chunks.\<close>

theorem fetch_stops_at_crossing_chunk_witness:
  "0 \<le> IMAGE_MAXIMUM_SIZE ex_constants
   \<and> IMAGE_MAXIMUM_SIZE ex_constants < int (length (concat [[1, 2, 3], [4, 5], [6 :: 8 word]]))
   \<and> (\<exists>rs. fetch ex_constants
          (ex_self
             (Opened \<lparr>headers = Map.empty, stream = [Chunk [1, 2, 3], Chunk [4, 5], Chunk [6]]\<rparr>)
             (PostFail []))
          (HostUrl ex_url) ex_state =
            (Inl (ImageSourceOversizedException None),
             ex_state\<lparr>trace :=
                Get (HostUrl ex_url) [(''user-agent'', ''hibiapi'')] 10 # map Read rs\<rparr>)
      \<and> prefix rs [[1, 2, 3], [4, 5], [6]] \<and> rs \<noteq> []
      \<and> int (length (concat (butlast rs))) \<le> 4
      \<and> 4 < int (length (concat rs))
      \<and> int (length (concat rs)) \<le> 4 + int (length (last rs)))"
  using
    fetch_stops_at_crossing_chunk [where C = ex_constants
      and self = "ex_self
             (Opened \<lparr>headers = Map.empty, stream = [Chunk [1, 2, 3], Chunk [4, 5], Chunk [6]]\<rparr>)
             (PostFail [])"
      and host = "HostUrl ex_url" and s = ex_state
      and r = "\<lparr>headers = Map.empty, stream = [Chunk [1, 2, 3], Chunk [4, 5], Chunk [6]]\<rparr>"
      and cs = "[[1, 2, 3], [4, 5], [6]]" and rest = "[]"]
  by (simp add: ex_fetch_simps ex_state_def)

text \<open>
  C2 as stated says that the full body is never consumed. With a maximum of 4 bytes and
  a body of 5 bytes in the chunks \<open>[1, 2, 3]\<close> and \<open>[4, 5]\<close>, the count crosses the maximum
  at the last chunk: \<open>fetch\<close> fails with \<open>ImageSourceOversizedException\<close> after it has read
  all 5 bytes.
\<close>

theorem fetch_reads_whole_body_counterexample:
  "fst (fetch ex_constants
          (ex_self (Opened \<lparr>headers = Map.empty, stream = [Chunk [1, 2, 3], Chunk [4, 5]]\<rparr>)
             (PostFail []))
          (HostUrl ex_url) ex_state) = Inl (ImageSourceOversizedException None)
   \<and> bytes_read (trace (snd (fetch ex_constants
          (ex_self (Opened \<lparr>headers = Map.empty, stream = [Chunk [1, 2, 3], Chunk [4, 5]]\<rparr>)
             (PostFail []))
          (HostUrl ex_url) ex_state))) = [1, 2, 3, 4, 5]"
  by (simp add: fetch_def fetch_try_def ex_fetch_simps headers_get_def UploadFileIO_def
      bytesio_write_def emit_def ex_state_def)

subsection \<open>\<open>fetch\<close>: the returned file\<close>

lemma fetch_try_returns:
  assumes "fetch_try C self host s = (Inr fl, s')" and "0 \<le> IMAGE_MAXIMUM_SIZE C"
  shows "tell fl = 0 \<and> int (length (getvalue fl)) \<le> IMAGE_MAXIMUM_SIZE C"
proof -
  obtain r where r: "client_stream self host (IMAGE_HEADERS C) (IMAGE_TIMEOUT C) = Opened r"
    using assms(1) by (cases "client_stream self host (IMAGE_HEADERS C) (IMAGE_TIMEOUT C)")
      (simp_all add: fetch_try_def Let_def)
  obtain fl' sz' where loop:
    "fetch_loop (IMAGE_MAXIMUM_SIZE C) (stream r) UploadFileIO 0
       (emit (Get host (IMAGE_HEADERS C) (IMAGE_TIMEOUT C)) s) = (Inr (fl', sz'), s')"
    and fl: "fl = bytesio_seek fl' 0"
    using assms(1) r
    by (auto simp: fetch_try_def Let_def split: sum.splits bool.splits prod.splits)
  have "tell fl' = length (getvalue fl') \<and> sz' = int (length (getvalue fl'))
      \<and> sz' \<le> IMAGE_MAXIMUM_SIZE C"
    using assms(2) by (intro fetch_loop_returns [OF loop]) (simp_all add: UploadFileIO_def)
  then show ?thesis
    using fl by (simp add: bytesio_seek_def)
qed

lemma fetch_Inr_iff:
  "fetch C self host s = (Inr fl, s') \<longleftrightarrow> fetch_try C self host s = (Inr fl, s')"
  by (auto simp: fetch_def split: prod.splits sum.splits)

text \<open>
  C3. For every \<open>fetch\<close> that returns, the position of the returned file is 0 and the
  file holds at most \<open>IMAGE_MAXIMUM_SIZE\<close> bytes (a size in bytes: not negative).
\<close>

theorem fetch_returns_rewound_within_cap:
  assumes "fetch C self host s = (Inr fl, s')" and "0 \<le> IMAGE_MAXIMUM_SIZE C"
  shows "tell fl = 0 \<and> int (length (getvalue fl)) \<le> IMAGE_MAXIMUM_SIZE C"
  using assms by (intro fetch_try_returns [of C self host s fl s']) (simp_all add: fetch_Inr_iff)

text \<open>C3 at a maximum of 4 bytes and a body of 4 bytes in two chunks.\<close>

theorem fetch_returns_rewound_within_cap_witness:
  "fst (fetch ex_constants
          (ex_self (Opened \<lparr>headers = Map.empty, stream = [Chunk [1, 2, 3], Chunk [4]]\<rparr>)
             (PostFail []))
          (HostUrl ex_url) ex_state) = Inr \<lparr>getvalue = [1, 2, 3, 4], tell = 0\<rparr>
   \<and> 0 \<le> IMAGE_MAXIMUM_SIZE ex_constants
   \<and> tell \<lparr>getvalue = [1, 2, 3, 4], tell = 0\<rparr> = 0
   \<and> int (length (getvalue \<lparr>getvalue = [1, 2, 3, 4 :: 8 word], tell = 0\<rparr>))
        \<le> IMAGE_MAXIMUM_SIZE ex_constants"
proof -
  let ?self = "ex_self (Opened \<lparr>headers = Map.empty, stream = [Chunk [1, 2, 3], Chunk [4]]\<rparr>)
             (PostFail [])"
  have run: "fetch ex_constants ?self (HostUrl ex_url) ex_state =
      (Inr \<lparr>getvalue = [1, 2, 3, 4], tell = 0\<rparr>,
       snd (fetch ex_constants ?self (HostUrl ex_url) ex_state))"
    by (simp add: fetch_def fetch_try_def ex_fetch_simps headers_get_def UploadFileIO_def
        bytesio_write_def bytesio_seek_def emit_def ex_state_def)
  have cap: "0 \<le> IMAGE_MAXIMUM_SIZE ex_constants"
    by (simp add: ex_fetch_simps)
  have "fst (fetch ex_constants ?self (HostUrl ex_url) ex_state) =
      Inr \<lparr>getvalue = [1, 2, 3, 4], tell = 0\<rparr>"
    by (subst run) simp
  then show ?thesis
    using fetch_returns_rewound_within_cap [OF run cap] cap by simp
qed

subsection \<open>\<open>fetch\<close>: transport errors\<close>

lemma fetch_try_connect_fail:
  assumes "client_stream self host (IMAGE_HEADERS C) (IMAGE_TIMEOUT C) = ConnectFail m"
  shows "fetch_try C self host s =
     (Inl (HTTPError m), emit (Get host (IMAGE_HEADERS C) (IMAGE_TIMEOUT C)) s)"
  using assms by (simp add: fetch_try_def)

lemma fetch_try_read_fail:
  assumes "client_stream self host (IMAGE_HEADERS C) (IMAGE_TIMEOUT C) = Opened r"
    and "headers r ''content-length'' = None"
    and "stream r = map Chunk cs @ ReadFail m # rest"
    and "int (length (concat cs)) \<le> IMAGE_MAXIMUM_SIZE C"
  shows "fst (fetch_try C self host s) = Inl (HTTPError m)"
proof -
  have "fetch_loop (IMAGE_MAXIMUM_SIZE C) (map Chunk cs @ ReadFail m # rest) UploadFileIO 0 s1 =
      (Inl (HTTPError m), s1\<lparr>trace := trace s1 @ map Read cs\<rparr>)" for s1
    using assms(4) by (subst fetch_loop_within) (simp_all add: UploadFileIO_def)
  moreover have "- 1 \<le> IMAGE_MAXIMUM_SIZE C"
    using assms(4) by linarith
  ultimately show ?thesis
    using assms(1,2,3) by (simp add: fetch_try_no_content_length)
qed

text \<open>
  C5. A transport error of \<open>fetch\<close> is an \<open>HTTPError\<close> with text \<open>m\<close>, raised when the
  stream is opened (connection failure, timeout) or by a read of the body (after chunks
  that stay within the maximum). In both cases \<open>fetch\<close> fails with
  \<open>UnavailableSourceException(detail=m)\<close>. An \<open>ImageSourceOversizedException\<close> raised in
  the \<open>try\<close> leaves \<open>fetch\<close> as it is: the handler does not wrap it.
\<close>

theorem fetch_wraps_transport_errors:
  "(client_stream self host (IMAGE_HEADERS C) (IMAGE_TIMEOUT C) = ConnectFail m \<longrightarrow>
      fst (fetch C self host s) = Inl (UnavailableSourceException (Some m)))
   \<and> (client_stream self host (IMAGE_HEADERS C) (IMAGE_TIMEOUT C) = Opened r
        \<and> headers r ''content-length'' = None
        \<and> stream r = map Chunk cs @ ReadFail m # rest
        \<and> int (length (concat cs)) \<le> IMAGE_MAXIMUM_SIZE C \<longrightarrow>
      fst (fetch C self host s) = Inl (UnavailableSourceException (Some m)))
   \<and> (fst (fetch_try C self host s) = Inl (ImageSourceOversizedException d) \<longrightarrow>
      fst (fetch C self host s) = Inl (ImageSourceOversizedException d))"
proof (intro conjI impI)
  assume "client_stream self host (IMAGE_HEADERS C) (IMAGE_TIMEOUT C) = ConnectFail m"
  then show "fst (fetch C self host s) = Inl (UnavailableSourceException (Some m))"
    by (simp add: fetch_def fetch_try_connect_fail)
next
  assume "client_stream self host (IMAGE_HEADERS C) (IMAGE_TIMEOUT C) = Opened r
        \<and> headers r ''content-length'' = None
        \<and> stream r = map Chunk cs @ ReadFail m # rest
        \<and> int (length (concat cs)) \<le> IMAGE_MAXIMUM_SIZE C"
  then have "fst (fetch_try C self host s) = Inl (HTTPError m)"
    by (intro fetch_try_read_fail [of self host C r cs m rest]) simp_all
  then show "fst (fetch C self host s) = Inl (UnavailableSourceException (Some m))"
    by (cases "fetch_try C self host s") (simp add: fetch_def)
next
  assume "fst (fetch_try C self host s) = Inl (ImageSourceOversizedException d)"
  then show "fst (fetch C self host s) = Inl (ImageSourceOversizedException d)"
    by (cases "fetch_try C self host s") (simp add: fetch_def)
qed

text \<open>
  C5 at a refused connection, at a read that times out after 3 of at most 4 bytes, and at
  a body that crosses the maximum before its read fails.
\<close>

theorem fetch_wraps_transport_errors_witness:
  "fst (fetch ex_constants (ex_self (ConnectFail ''connection refused'') (PostFail []))
          (HostUrl ex_url) ex_state)
     = Inl (UnavailableSourceException (Some ''connection refused''))
   \<and> fst (fetch ex_constants
          (ex_self (Opened \<lparr>headers = Map.empty,
                            stream = [Chunk [1, 2, 3], ReadFail ''read timeout'', Chunk [4]]\<rparr>)
             (PostFail []))
          (HostUrl ex_url) ex_state)
     = Inl (UnavailableSourceException (Some ''read timeout''))
   \<and> fst (fetch_try ex_constants
          (ex_self (Opened \<lparr>headers = Map.empty,
                            stream = [Chunk [1, 2, 3], Chunk [4, 5], ReadFail ''read timeout'']\<rparr>)
             (PostFail []))
          (HostUrl ex_url) ex_state)
     = Inl (ImageSourceOversizedException None)
   \<and> fst (fetch ex_constants
          (ex_self (Opened \<lparr>headers = Map.empty,
                            stream = [Chunk [1, 2, 3], Chunk [4, 5], ReadFail ''read timeout'']\<rparr>)
             (PostFail []))
          (HostUrl ex_url) ex_state)
     = Inl (ImageSourceOversizedException None)"
proof -
  let ?r = "\<lparr>headers = Map.empty,
             stream = [Chunk [1, 2, 3], ReadFail ''read timeout'', Chunk [4]]\<rparr>"
  let ?big = "\<lparr>headers = Map.empty,
             stream = [Chunk [1, 2, 3], Chunk [4, 5], ReadFail ''read timeout'']\<rparr>"
  have over: "fst (fetch_try ex_constants (ex_self (Opened ?big) (PostFail []))
          (HostUrl ex_url) ex_state) = Inl (ImageSourceOversizedException None)"
    by (simp add: fetch_try_def ex_fetch_simps headers_get_def UploadFileIO_def
        bytesio_write_def emit_def ex_state_def)
  show ?thesis
    using over
      fetch_wraps_transport_errors [of "ex_self (ConnectFail ''connection refused'') (PostFail [])"
        "HostUrl ex_url" ex_constants "''connection refused''" ex_state]
      fetch_wraps_transport_errors [of "ex_self (Opened ?r) (PostFail [])"
        "HostUrl ex_url" ex_constants "''read timeout''" ex_state ?r "[[1, 2, 3]]" "[Chunk [4]]"]
      fetch_wraps_transport_errors [of "ex_self (Opened ?big) (PostFail [])"
        "HostUrl ex_url" ex_constants _ ex_state _ _ _ None]
    by (simp add: ex_fetch_simps)
qed

subsection \<open>\<open>request\<close>\<close>

text \<open>
  \<open>request\<close> in one piece: the dictionary after the update, the URL of the call, the
  result for each answer of the client, and the state it leaves.
\<close>

lemma request_unfold:
  "request C self fl params s =
     (let d = dict_update (dicts s params)
                [(''api_key'', PStr (API_KEY C)), (''output_type'', PInt 2)];
          url = join self base ''search.php'' d
      in (case client_post self url fl of
            PostFail m \<Rightarrow> Inl (UpstreamAPIException None)
          | Responded r \<Rightarrow>
              if status_raises self (status_code r)
              then Inl (UpstreamAPIException (Some (response_text r)))
              else response_json r,
          s\<lparr>dicts := (dicts s)(params := d), trace := trace s @ [Post url fl]\<rparr>))"
  by (simp add: request_def request_try_def raise_for_status_def emit_def Let_def
      split: post_outcome.splits)

text \<open>
  A response on whose status \<open>raise_for_status\<close> does not raise: the result is that of
  \<open>response.json()\<close>.
\<close>

lemma request_no_status_error:
  assumes "client_post self
             (join self base ''search.php''
                (dict_update (dicts s params)
                   [(''api_key'', PStr (API_KEY C)), (''output_type'', PInt 2)])) fl
           = Responded r"
    and "\<not> status_raises self (status_code r)"
  shows "fst (request C self fl params s) = response_json r"
  using assms by (simp add: request_unfold Let_def)

lemma dict_update_two:
  "dict_update d [(k1, v1), (k2, v2)] = AList.update k2 v2 (AList.update k1 v1 d)"
  by (simp add: dict_update_def)

text \<open>
  C4. For every upstream POST answered with a non-success status, that is, with a status
  on which \<open>raise_for_status\<close> raises (whatever set of statuses the client raises on; 500
  and 403 are in it for every httpx), \<open>request\<close> fails with \<open>UpstreamAPIException\<close> whose
  detail is the text of the response body.
\<close>

theorem request_status_error:
  assumes "client_post self
             (join self base ''search.php''
                (dict_update (dicts s params)
                   [(''api_key'', PStr (API_KEY C)), (''output_type'', PInt 2)])) fl
           = Responded r"
    and "status_raises self (status_code r)"
  shows "fst (request C self fl params s) = Inl (UpstreamAPIException (Some (response_text r)))"
  using assms by (simp add: request_unfold Let_def)

text \<open>
  C4 at the statuses 500, 403 and 302, for a client that raises on every status outside
  200 to 299.
\<close>

theorem request_status_error_witness:
  "status_raises (ex_self (ConnectFail []) (Responded (ex_response 500))) 500
   \<and> status_raises (ex_self (ConnectFail []) (Responded (ex_response 403))) 403
   \<and> status_raises (ex_self (ConnectFail []) (Responded (ex_response 302))) 302
   \<and> fst (request ex_constants (ex_self (ConnectFail []) (Responded (ex_response 500)))
            \<lparr>getvalue = [1, 2], tell = 0\<rparr> 0 ex_state)
       = Inl (UpstreamAPIException (Some ''body''))
   \<and> fst (request ex_constants (ex_self (ConnectFail []) (Responded (ex_response 403)))
            \<lparr>getvalue = [1, 2], tell = 0\<rparr> 0 ex_state)
       = Inl (UpstreamAPIException (Some ''body''))
   \<and> fst (request ex_constants (ex_self (ConnectFail []) (Responded (ex_response 302)))
            \<lparr>getvalue = [1, 2], tell = 0\<rparr> 0 ex_state)
       = Inl (UpstreamAPIException (Some ''body''))"
  using
    request_status_error [where self = "ex_self (ConnectFail []) (Responded (ex_response 500))"
      and s = ex_state and params = 0 and C = ex_constants
      and fl = "\<lparr>getvalue = [1, 2], tell = 0\<rparr>" and r = "ex_response 500"]
    request_status_error [where self = "ex_self (ConnectFail []) (Responded (ex_response 403))"
      and s = ex_state and params = 0 and C = ex_constants
      and fl = "\<lparr>getvalue = [1, 2], tell = 0\<rparr>" and r = "ex_response 403"]
    request_status_error [where self = "ex_self (ConnectFail []) (Responded (ex_response 302))"
      and s = ex_state and params = 0 and C = ex_constants
      and fl = "\<lparr>getvalue = [1, 2], tell = 0\<rparr>" and r = "ex_response 302"]
  by (simp add: ex_post_simps ex_response_def)

text \<open>
  C6. For every upstream POST that fails below the status level (the client raises an
  \<open>HTTPError\<close> that is not an \<open>HTTPStatusError\<close>, such as a refused connection), \<open>request\<close>
  fails with \<open>UpstreamAPIException\<close> raised bare: no detail is given.
\<close>

theorem request_transport_error:
  assumes "client_post self
             (join self base ''search.php''
                (dict_update (dicts s params)
                   [(''api_key'', PStr (API_KEY C)), (''output_type'', PInt 2)])) fl
           = PostFail m"
  shows "fst (request C self fl params s) = Inl (UpstreamAPIException None)"
  using assms by (simp add: request_unfold Let_def)

text \<open>
C6 at a refused connection.
\<close>

theorem request_transport_error_witness:
  "fst (request ex_constants (ex_self (ConnectFail []) (PostFail ''connection refused''))
            \<lparr>getvalue = [1, 2], tell = 0\<rparr> 0 ex_state)
       = Inl (UpstreamAPIException None)"
  using
    request_transport_error [of "ex_self (ConnectFail []) (PostFail ''connection refused'')"
      ex_state 0 ex_constants "\<lparr>getvalue = [1, 2], tell = 0\<rparr>" "''connection refused''"]
  by (simp add: ex_self_def)

text \<open>
  C10. Every call of \<open>request\<close>, whatever its result, leaves the dictionary object that
  the caller passed as \<open>params\<close> updated: the object holds \<open>api_key\<close> (the configured key) and
  \<open>output_type = 2\<close>, every other key of it is as before, and every other dictionary of
  the store is as before.
\<close>

theorem request_updates_params_in_place:
  "dicts (snd (request C self fl params s)) params =
     dict_update (dicts s params) [(''api_key'', PStr (API_KEY C)), (''output_type'', PInt 2)]
   \<and> map_of (dicts (snd (request C self fl params s)) params) ''api_key''
       = Some (PStr (API_KEY C))
   \<and> map_of (dicts (snd (request C self fl params s)) params) ''output_type'' = Some (PInt 2)
   \<and> (\<forall>k. k \<noteq> ''api_key'' \<and> k \<noteq> ''output_type'' \<longrightarrow>
         map_of (dicts (snd (request C self fl params s)) params) k = map_of (dicts s params) k)
   \<and> (\<forall>q. q \<noteq> params \<longrightarrow> dicts (snd (request C self fl params s)) q = dicts s q)"
  by (simp add: request_unfold Let_def dict_update_two update_conv')

text \<open>
  C10 at a dictionary that holds \<open>numres\<close>, for a call that raises; another dictionary of
  the store, for a call that returns.
\<close>

theorem request_updates_params_in_place_witness:
  "dicts (snd (request ex_constants (ex_self (ConnectFail []) (PostFail ''connection refused''))
            \<lparr>getvalue = [1, 2], tell = 0\<rparr> 0
            (ex_state\<lparr>dicts := (\<lambda>r. [(''numres'', PInt 30)])\<rparr>))) 0
     = [(''numres'', PInt 30), (''api_key'', PStr ''secret''), (''output_type'', PInt 2)]
   \<and> map_of (dicts (snd (request ex_constants
            (ex_self (ConnectFail []) (PostFail ''connection refused''))
            \<lparr>getvalue = [1, 2], tell = 0\<rparr> 0
            (ex_state\<lparr>dicts := (\<lambda>r. [(''numres'', PInt 30)])\<rparr>))) 0) ''numres''
     = Some (PInt 30)
   \<and> dicts (snd (request ex_constants (ex_self (ConnectFail []) (Responded (ex_response 200)))
            \<lparr>getvalue = [1, 2], tell = 0\<rparr> 0
            (ex_state\<lparr>dicts := (\<lambda>r. [(''numres'', PInt 30)])\<rparr>))) 1
     = [(''numres'', PInt 30)]"
  using
    request_updates_params_in_place [of ex_constants
      "ex_self (ConnectFail []) (PostFail ''connection refused'')"
      "\<lparr>getvalue = [1, 2], tell = 0\<rparr>" 0 "ex_state\<lparr>dicts := (\<lambda>r. [(''numres'', PInt 30)])\<rparr>"]
    request_updates_params_in_place [of ex_constants
      "ex_self (ConnectFail []) (Responded (ex_response 200))"
      "\<lparr>getvalue = [1, 2], tell = 0\<rparr>" 0 "ex_state\<lparr>dicts := (\<lambda>r. [(''numres'', PInt 30)])\<rparr>"]
  by (simp add: ex_state_def ex_constants_def dict_update_def)

subsection \<open>\<open>search\<close>\<close>

lemma search_by_file:
  assumes "arg_url a = None" and "arg_file a = Some fl"
  shows "search C self a s =
     request C self fl (next_ref s)
       (s\<lparr>dicts := (dicts s)(next_ref s :=
              [(''dbmask'', optional_int (arg_enabled_mask a)),
               (''dbmaski'', optional_int (arg_disabled_mask a)),
               (''db'', optional_int (arg_database a)),
               (''numres'', PInt (arg_size a)),
               (''dedupe'', PIntEnum (arg_deduplicate a))]),
           next_ref := Suc (next_ref s)\<rparr>)"
  using assms by (simp add: search_def new_dict_def)

lemma search_by_url:
  assumes "arg_url a = Some host" and "fetch C self host s = (Inr fl, s1)"
  shows "search C self a s =
     request C self fl (next_ref s1)
       (s1\<lparr>dicts := (dicts s1)(next_ref s1 :=
              [(''dbmask'', optional_int (arg_enabled_mask a)),
               (''dbmaski'', optional_int (arg_disabled_mask a)),
               (''db'', optional_int (arg_database a)),
               (''numres'', PInt (arg_size a)),
               (''dedupe'', PIntEnum (arg_deduplicate a))]),
           next_ref := Suc (next_ref s1)\<rparr>)"
  using assms by (simp add: search_def new_dict_def)

lemma search_buffer:
  assumes "(arg_url a = None \<and> arg_file a = Some fl \<and> s1 = s)
         \<or> (arg_url a = Some host \<and> fetch C self host s = (Inr fl, s1))"
  shows "search C self a s =
     request C self fl (next_ref s1)
       (s1\<lparr>dicts := (dicts s1)(next_ref s1 :=
              [(''dbmask'', optional_int (arg_enabled_mask a)),
               (''dbmaski'', optional_int (arg_disabled_mask a)),
               (''db'', optional_int (arg_database a)),
               (''numres'', PInt (arg_size a)),
               (''dedupe'', PIntEnum (arg_deduplicate a))]),
           next_ref := Suc (next_ref s1)\<rparr>)"
  using assms search_by_file [of a fl C self s] search_by_url [of a host C self s fl s1]
  by auto

lemma dict_update_search_params:
  "dict_update
     [(''dbmask'', m), (''dbmaski'', mi), (''db'', db), (''numres'', n), (''dedupe'', dd)]
     [(''api_key'', k), (''output_type'', ot)]
   = [(''dbmask'', m), (''dbmaski'', mi), (''db'', db), (''numres'', n), (''dedupe'', dd),
      (''api_key'', k), (''output_type'', ot)]"
  by (simp add: dict_update_def)

text \<open>
  C7. For every call of \<open>search\<close> left at its defaults, by file or by a URL whose fetch
  returns the file \<open>fl\<close>: the one POST is made at the URL that \<open>_join\<close> builds from exactly
  the parameters \<open>dbmask = None\<close>, \<open>dbmaski = None\<close>, \<open>db = None\<close>, \<open>numres = 30\<close>,
  \<open>dedupe = ALL\<close> (the integer 2), \<open>api_key\<close> (the configured key) and \<open>output_type = 2\<close>, with
  that file; and when the upstream answers with a status on which \<open>raise_for_status\<close>
  does not raise and a JSON body, \<open>search\<close> returns the parsed body as it is.
\<close>

theorem search_defaults_post:
  assumes "a = search_defaults\<lparr>arg_url := u, arg_file := f\<rparr>"
    and "(u = None \<and> f = Some fl \<and> s1 = s)
         \<or> (u = Some host \<and> fetch C self host s = (Inr fl, s1))"
  shows "trace (snd (search C self a s)) =
       trace s1 @
       [Post (join self base ''search.php''
          [(''dbmask'', PNone), (''dbmaski'', PNone), (''db'', PNone),
           (''numres'', PInt 30), (''dedupe'', PIntEnum ALL'),
           (''api_key'', PStr (API_KEY C)), (''output_type'', PInt 2)]) fl]
     \<and> int_value ALL' = 2
     \<and> (\<forall>r j. client_post self
                 (join self base ''search.php''
                    [(''dbmask'', PNone), (''dbmaski'', PNone), (''db'', PNone),
                     (''numres'', PInt 30), (''dedupe'', PIntEnum ALL'),
                     (''api_key'', PStr (API_KEY C)), (''output_type'', PInt 2)]) fl
               = Responded r
               \<and> \<not> status_raises self (status_code r) \<and> json r = Some j
            \<longrightarrow> fst (search C self a s) = Inr j)"
proof -
  have "(arg_url a = None \<and> arg_file a = Some fl \<and> s1 = s)
         \<or> (arg_url a = Some host \<and> fetch C self host s = (Inr fl, s1))"
    using assms(1,2) by auto
  then have "search C self a s =
     request C self fl (next_ref s1)
       (s1\<lparr>dicts := (dicts s1)(next_ref s1 :=
              [(''dbmask'', optional_int (arg_enabled_mask a)),
               (''dbmaski'', optional_int (arg_disabled_mask a)),
               (''db'', optional_int (arg_database a)),
               (''numres'', PInt (arg_size a)),
               (''dedupe'', PIntEnum (arg_deduplicate a))]),
           next_ref := Suc (next_ref s1)\<rparr>)"
    by (rule search_buffer)
  then show ?thesis
    using assms(1)
    by (simp add: request_unfold Let_def dict_update_search_params search_defaults_def
        optional_int_def response_json_def)
qed

text \<open>
  C7 at a search by URL: a body of 4 bytes with no \<open>content-length\<close>, then a POST answered
  with status 200.
\<close>

theorem search_defaults_post_witness:
  "trace (snd (search ex_constants
       (ex_self (Opened \<lparr>headers = Map.empty, stream = [Chunk [1, 2, 3], Chunk [4]]\<rparr>)
          (Responded (ex_response 200)))
       (search_defaults\<lparr>arg_url := Some (HostUrl ex_url), arg_file := None\<rparr>) ex_state))
   = [Get (HostUrl ex_url) [(''user-agent'', ''hibiapi'')] 10, Read [1, 2, 3], Read [4],
      Post (join (ex_self (Opened \<lparr>headers = Map.empty, stream = [Chunk [1, 2, 3], Chunk [4]]\<rparr>)
                    (Responded (ex_response 200)))
              base ''search.php''
              [(''dbmask'', PNone), (''dbmaski'', PNone), (''db'', PNone),
               (''numres'', PInt 30), (''dedupe'', PIntEnum ALL'),
               (''api_key'', PStr ''secret''), (''output_type'', PInt 2)])
        \<lparr>getvalue = [1, 2, 3, 4], tell = 0\<rparr>]
   \<and> fst (search ex_constants
       (ex_self (Opened \<lparr>headers = Map.empty, stream = [Chunk [1, 2, 3], Chunk [4]]\<rparr>)
          (Responded (ex_response 200)))
       (search_defaults\<lparr>arg_url := Some (HostUrl ex_url), arg_file := None\<rparr>) ex_state)
   = Inr (JObj [(''results'', JArr [])])"
proof -
  let ?self = "ex_self (Opened \<lparr>headers = Map.empty, stream = [Chunk [1, 2, 3], Chunk [4]]\<rparr>)
          (Responded (ex_response 200))"
  let ?s1 = "ex_state\<lparr>trace :=
      [Get (HostUrl ex_url) [(''user-agent'', ''hibiapi'')] 10, Read [1, 2, 3], Read [4]]\<rparr>"
  have run: "fetch ex_constants ?self (HostUrl ex_url) ex_state =
      (Inr \<lparr>getvalue = [1, 2, 3, 4], tell = 0\<rparr>, ?s1)"
    by (simp add: fetch_def fetch_try_def ex_fetch_simps headers_get_def UploadFileIO_def
        bytesio_write_def bytesio_seek_def emit_def ex_state_def)
  have ok: "\<not> status_raises ?self 200"
    by (simp add: ex_post_simps)
  show ?thesis
    using ok
      search_defaults_post [where a = "search_defaults\<lparr>arg_url := Some (HostUrl ex_url), arg_file := None\<rparr>"
        and u = "Some (HostUrl ex_url)" and f = None
        and fl = "\<lparr>getvalue = [1, 2, 3, 4], tell = 0\<rparr>" and ?s1.0 = ?s1 and s = ex_state
        and host = "HostUrl ex_url" and C = ex_constants and self = ?self]
    by (simp add: run ex_post_simps)
qed

text \<open>
  C8. For every call of \<open>search\<close> with a file and no URL, the call adds one POST to the
  trace and no GET (\<open>fetch\<close> starts with a GET, so it is not run), and the parameters of the
  POST hold the given member of \<open>DeduplicateType\<close> under \<open>dedupe\<close>; \<open>DISABLED\<close> is the
  integer 0.
\<close>

theorem search_file_only:
  assumes "arg_url a = None" and "arg_file a = Some fl"
  shows "trace (snd (search C self a s)) =
       trace s @
       [Post (join self base ''search.php''
          [(''dbmask'', optional_int (arg_enabled_mask a)),
           (''dbmaski'', optional_int (arg_disabled_mask a)),
           (''db'', optional_int (arg_database a)),
           (''numres'', PInt (arg_size a)),
           (''dedupe'', PIntEnum (arg_deduplicate a)),
           (''api_key'', PStr (API_KEY C)), (''output_type'', PInt 2)]) fl]
     \<and> filter is_Get (trace (snd (search C self a s))) = filter is_Get (trace s)
     \<and> int_value DISABLED = 0"
  using assms
  by (simp add: search_by_file request_unfold Let_def dict_update_search_params)

text \<open>
C8 at \<open>deduplicate = DISABLED\<close>.
\<close>

theorem search_file_only_witness:
  "trace (snd (search ex_constants
       (ex_self (ConnectFail []) (Responded (ex_response 200)))
       (search_defaults\<lparr>arg_file := Some \<lparr>getvalue = [1, 2], tell = 0\<rparr>,
                         arg_deduplicate := DISABLED\<rparr>) ex_state))
   = [Post (join (ex_self (ConnectFail []) (Responded (ex_response 200)))
              base ''search.php''
              [(''dbmask'', PNone), (''dbmaski'', PNone), (''db'', PNone),
               (''numres'', PInt 30), (''dedupe'', PIntEnum DISABLED),
               (''api_key'', PStr ''secret''), (''output_type'', PInt 2)])
        \<lparr>getvalue = [1, 2], tell = 0\<rparr>]
   \<and> filter is_Get (trace (snd (search ex_constants
       (ex_self (ConnectFail []) (Responded (ex_response 200)))
       (search_defaults\<lparr>arg_file := Some \<lparr>getvalue = [1, 2], tell = 0\<rparr>,
                         arg_deduplicate := DISABLED\<rparr>) ex_state))) = []
   \<and> int_value DISABLED = 0"
  using
    search_file_only [where a = "search_defaults\<lparr>arg_file := Some \<lparr>getvalue = [1, 2], tell = 0\<rparr>,
                         arg_deduplicate := DISABLED\<rparr>" and fl = "\<lparr>getvalue = [1, 2], tell = 0\<rparr>"
      and C = ex_constants and self = "ex_self (ConnectFail []) (Responded (ex_response 200))"
      and s = ex_state]
  by (simp add: search_defaults_def optional_int_def ex_post_simps ex_state_def)

subsection \<open>\<open>HostUrl\<close>\<close>

text \<open>
  C9. For every URL whose host is not in \<open>IMAGE_ALLOWED_HOST\<close>, the construction of the
  \<open>HostUrl\<close> fails, and a fetch or a search of that URL fails with the same error and the
  state unchanged: the trace has no new call.
\<close>

theorem HostUrl_rejects_unlisted_host:
  assumes "url_host u \<notin> set (IMAGE_ALLOWED_HOST C)"
  shows "HostUrl_validate C u = Inl UrlHostError
     \<and> fetch_url C self u s = (Inl UrlHostError, s)
     \<and> search_url C self u a s = (Inl UrlHostError, s)"
  using assms by (simp add: HostUrl_validate_def fetch_url_def search_url_def)

text \<open>
C9 at the host \<open>example.org\<close>, with \<open>saucenao.com\<close> the one allowed host.
\<close>

theorem HostUrl_rejects_unlisted_host_witness:
  "''example.org'' \<notin> set (IMAGE_ALLOWED_HOST ex_constants)
   \<and> HostUrl_validate ex_constants (ex_url\<lparr>url_host := ''example.org''\<rparr>) = Inl UrlHostError
   \<and> fetch_url ex_constants (ex_self (ConnectFail []) (PostFail []))
        (ex_url\<lparr>url_host := ''example.org''\<rparr>) ex_state = (Inl UrlHostError, ex_state)
   \<and> search_url ex_constants (ex_self (ConnectFail []) (PostFail []))
        (ex_url\<lparr>url_host := ''example.org''\<rparr>) search_defaults ex_state
      = (Inl UrlHostError, ex_state)
   \<and> trace ex_state = []"
  using
    HostUrl_rejects_unlisted_host [where u = "ex_url\<lparr>url_host := ''example.org''\<rparr>"
      and C = ex_constants and self = "ex_self (ConnectFail []) (PostFail [])" and s = ex_state
      and a = search_defaults]
  by (simp add: ex_constants_def ex_state_def)

end
